theory Spec2Isabelle
  imports Complex_Main "HOL-Library.Sublist"
begin

section \<open>JavaScript values used by the two front ends\<close>

text \<open>
  A JavaScript number is an IEEE 754 double.  A finite one is modelled by its exact
  value, a rational; the three non-finite numbers are constructors of their own.  The sign
  of zero is not represented: both zeros are \<open>Fin 0\<close>.
\<close>

datatype number = Fin rat | NaN | PosInfinity | NegInfinity

subsection \<open>Rounding to the nearest double\<close>

definition pow2 :: "int \<Rightarrow> rat" where
  "pow2 k = (if 0 \<le> k then 2 ^ nat k else 1 / 2 ^ nat (- k))"

text \<open>The number of binary digits of a natural number.\<close>

fun bits :: "nat \<Rightarrow> nat" where
  "bits n = (if n = 0 then 0 else Suc (bits (n div 2)))"

declare bits.simps [simp del]

text \<open>
  The exponent \<open>e\<close> with \<open>2^e \<le> a < 2^(e+1)\<close>, for a positive \<open>a\<close>: the difference of the
  lengths of numerator and denominator, or one less.
\<close>

definition floor_log2 :: "rat \<Rightarrow> int" where
  "floor_log2 a =
     (let (p, d) = quotient_of a; k = int (bits (nat p)) - int (bits (nat d))
      in if pow2 k \<le> a then k else k - 1)"

definition round_half_even :: "rat \<Rightarrow> int" where
  "round_half_even x =
     (let f = \<lfloor>x\<rfloor>; d = x - of_int f
      in if d < 1 / 2 then f else if 1 / 2 < d then f + 1 else if even f then f else f + 1)"

text \<open>
  The Number value for a real \<open>q\<close>: the double nearest to \<open>q\<close>, the one with an even
  significand at a tie, an infinity from \<open>2^1024\<close> on.  A double has 53 significant binary
  digits and its exponent is at least \<open>-1022\<close>, so the doubles around \<open>q\<close> are the
  multiples of \<open>u\<close>.  This is the value of a decimal literal and the result of an
  arithmetic operation on finite numbers.
\<close>

definition number_value :: "rat \<Rightarrow> number" where
  "number_value q =
     (if q = 0 then Fin 0
      else
        let a = \<bar>q\<bar>;
            e = max (floor_log2 a) (- 1022);
            u = pow2 (e - 52);
            r = of_int (round_half_even (a / u)) * u
        in if pow2 1024 \<le> r then (if 0 < q then PosInfinity else NegInfinity)
           else Fin (if 0 < q then r else - r))"

subsection \<open>Arithmetic\<close>

text \<open>Truncation toward zero, the rounding of the quotient inside \<^verbatim>\<open>%\<close>.\<close>

definition rat_trunc :: "rat \<Rightarrow> int" where
  "rat_trunc q = (if q < 0 then \<lceil>q\<rceil> else \<lfloor>q\<rfloor>)"

fun number_mul :: "number \<Rightarrow> number \<Rightarrow> number" where
  "number_mul NaN _ = NaN"
| "number_mul _ NaN = NaN"
| "number_mul (Fin a) (Fin b) = number_value (a * b)"
| "number_mul (Fin a) PosInfinity =
     (if a = 0 then NaN else if 0 < a then PosInfinity else NegInfinity)"
| "number_mul (Fin a) NegInfinity =
     (if a = 0 then NaN else if 0 < a then NegInfinity else PosInfinity)"
| "number_mul PosInfinity (Fin b) =
     (if b = 0 then NaN else if 0 < b then PosInfinity else NegInfinity)"
| "number_mul NegInfinity (Fin b) =
     (if b = 0 then NaN else if 0 < b then NegInfinity else PosInfinity)"
| "number_mul PosInfinity PosInfinity = PosInfinity"
| "number_mul PosInfinity NegInfinity = NegInfinity"
| "number_mul NegInfinity PosInfinity = NegInfinity"
| "number_mul NegInfinity NegInfinity = PosInfinity"

text \<open>Division; a zero divisor is taken as \<open>+0\<close>.\<close>

fun number_div :: "number \<Rightarrow> number \<Rightarrow> number" where
  "number_div NaN _ = NaN"
| "number_div _ NaN = NaN"
| "number_div (Fin a) (Fin b) =
     (if b = 0 then (if a = 0 then NaN else if 0 < a then PosInfinity else NegInfinity)
      else number_value (a / b))"
| "number_div (Fin a) PosInfinity = Fin 0"
| "number_div (Fin a) NegInfinity = Fin 0"
| "number_div PosInfinity (Fin b) = (if 0 \<le> b then PosInfinity else NegInfinity)"
| "number_div NegInfinity (Fin b) = (if 0 \<le> b then NegInfinity else PosInfinity)"
| "number_div PosInfinity _ = NaN"
| "number_div NegInfinity _ = NaN"

text \<open>
  The remainder \<^verbatim>\<open>n % d\<close>: \<open>n - d * q\<close> with \<open>q\<close> the quotient truncated toward zero;
  \<open>NaN\<close> when the dividend is not finite or the divisor is zero, the dividend itself when
  the divisor is infinite.  The remainder of two doubles is a double: nothing is rounded.
\<close>

fun number_rem :: "number \<Rightarrow> number \<Rightarrow> number" where
  "number_rem NaN _ = NaN"
| "number_rem _ NaN = NaN"
| "number_rem PosInfinity _ = NaN"
| "number_rem NegInfinity _ = NaN"
| "number_rem (Fin a) (Fin b) =
     (if b = 0 then NaN else Fin (a - b * of_int (rat_trunc (a / b))))"
| "number_rem (Fin a) PosInfinity = Fin a"
| "number_rem (Fin a) NegInfinity = Fin a"

text \<open>Strict equality \<^verbatim>\<open>===\<close> on numbers: \<open>NaN\<close> equals nothing, itself included.\<close>

fun number_strict_eq :: "number \<Rightarrow> number \<Rightarrow> bool" where
  "number_strict_eq NaN _ = False"
| "number_strict_eq _ NaN = False"
| "number_strict_eq a b = (a = b)"

subsection \<open>String coercion\<close>

definition digit_char :: "nat \<Rightarrow> char" where
  "digit_char d = ''0123456789'' ! (d mod 10)"

fun digits10 :: "nat \<Rightarrow> string" where
  "digits10 n = (if n < 10 then [digit_char n] else digits10 (n div 10) @ [digit_char (n mod 10)])"

declare digits10.simps [simp del]

text \<open>
  \<open>Number::toString\<close> of ECMAScript.  The non-finite numbers have fixed names; an
  integer of magnitude below \<open>2^53\<close> is written with all its decimal digits, with a
  leading minus sign when negative, zero as \<open>0\<close>.  Every other finite number (a fraction,
  or a magnitude from \<open>2^53\<close> on, of which only the leading digits are written) is left
  to the parameter \<open>rest\<close>: nothing below depends on how those are written.
\<close>

definition number_to_string :: "(rat \<Rightarrow> string) \<Rightarrow> number \<Rightarrow> string" where
  "number_to_string rest v =
     (case v of
        NaN \<Rightarrow> ''NaN''
      | PosInfinity \<Rightarrow> ''Infinity''
      | NegInfinity \<Rightarrow> ''-Infinity''
      | Fin q \<Rightarrow>
          (if q = of_int \<lfloor>q\<rfloor> \<and> \<bar>q\<bar> < 2 ^ 53
           then (if q < 0 then ''-'' else '''') @ digits10 (nat \<bar>\<lfloor>q\<rfloor>\<bar>)
           else rest q))"

text \<open>\<^verbatim>\<open>Array.prototype.join\<close> on strings.\<close>

fun join :: "string \<Rightarrow> string list \<Rightarrow> string" where
  "join sep [] = ''''"
| "join sep [s] = s"
| "join sep (s # t # ts) = s @ sep @ join sep (t # ts)"

section \<open>Benchmark charts: tick-label formatters\<close>

text \<open>
  A tick value handed to a callback by the charting library is a number or a string
  (\<^verbatim>\<open>number | string\<close>); the tick index is a natural number.  A callback returns a label
  or nothing (\<^verbatim>\<open>undefined\<close>), here \<open>None\<close>.
\<close>

datatype tick_value = TickNumber number | TickString string

text \<open>
  Unary plus: the identity on a number; on a string the runtime's \<open>StringToNumber\<close>,
  a parameter.
\<close>

fun unary_plus :: "(string \<Rightarrow> number) \<Rightarrow> tick_value \<Rightarrow> number" where
  "unary_plus to_num (TickNumber n) = n"
| "unary_plus to_num (TickString s) = to_num s"

text \<open>
  \<open>transformTimeTicks\<close>: \<open>str\<close> is the string coercion of a number inside a template
  literal.
\<close>

definition transformTimeTicks ::
  "(number \<Rightarrow> string) \<Rightarrow> number \<Rightarrow> tick_value \<Rightarrow> nat \<Rightarrow> string option" where
  "transformTimeTicks str factor unused_value index =
     (if index mod 10 = 0
      then Some (''~'' @ str (number_mul (Fin (of_nat index)) factor) @ ''s'')
      else None)"

definition transformMillisecondTicks ::
  "(number \<Rightarrow> string) \<Rightarrow> (string \<Rightarrow> number) \<Rightarrow> tick_value \<Rightarrow> nat \<Rightarrow> string option" where
  "transformMillisecondTicks str to_num value unused_index =
     (let v = unary_plus to_num value
      in if number_strict_eq (number_rem v (Fin 1000)) (Fin 0)
         then Some (str (number_div v (Fin 1000)) @ ''s'')
         else None)"


section \<open>Coffee search form\<close>

subsection \<open>The request built by \<open>getData\<close>\<close>

text \<open>
  A request handed to the network.  \<^verbatim>\<open>fetch\<close> called with a URL alone issues a \<open>GET\<close>.
\<close>

record request =
  req_method :: string
  req_url :: string

definition fetch :: "string \<Rightarrow> request" where
  "fetch u = \<lparr>req_method = ''GET'', req_url = u\<rparr>"

text \<open>
  An object is the list of its own properties in creation order, which is the order
  \<^verbatim>\<open>Object.entries\<close> walks string keys in.  The object literal
  \<^verbatim>\<open>{ aroma, flavor, acidity, sweetness }\<close> is \<open>FilterSet\<close>.
\<close>

definition FilterSet :: "'n \<Rightarrow> 'n \<Rightarrow> 'n \<Rightarrow> 'n \<Rightarrow> (string \<times> 'n) list" where
  "FilterSet a f c w = [(''aroma'', a), (''flavor'', f), (''acidity'', c), (''sweetness'', w)]"

text \<open>
  \<open>getData\<close> up to its first \<^verbatim>\<open>await\<close>: the request it hands to \<^verbatim>\<open>fetch\<close>.
  \<open>dev\<close> is \<^verbatim>\<open>import.meta.env.DEV\<close>, \<open>str\<close> the string coercion of a number inside
  a template literal.  The promise it returns is settled later, by an event of the form
  below.
\<close>

definition getData :: "bool \<Rightarrow> ('n \<Rightarrow> string) \<Rightarrow> (string \<times> 'n) list \<Rightarrow> request" where
  "getData dev str v =
     (let URL = (if dev then ''http://localhost:4000'' else '''');
          params = join ''&'' (map (\<lambda>(k, v). k @ ''='' @ str v) v)
      in fetch (URL @ ''/search?'' @ params))"

subsection \<open>Values of a parsed JSON body and their string coercion\<close>

text \<open>
  What \<^verbatim>\<open>response.json()\<close> can resolve to, over the numbers \<open>'n\<close>.  An object is the
  list of its own properties.
\<close>

datatype 'n json =
  JNull
| JBool bool
| JNumber 'n
| JString string
| JArray "'n json list"
| JObject "(string \<times> 'n json) list"

datatype error = TypeError

text \<open>
  \<open>ToString\<close> on a value parsed from JSON, as a template literal applies it: the names of
  \<open>null\<close> and the booleans, a number by \<open>str\<close>, a string as it is.  An array is its
  elements joined by commas, a \<open>null\<close> element left empty, and the coercion of an element
  may throw.  An object is converted by its \<open>toString\<close> method, then by \<open>valueOf\<close>: with
  no own property \<open>toString\<close> the inherited method gives \<open>[object Object]\<close>; an own property
  \<open>toString\<close> hides it and is no function, \<open>valueOf\<close> (own and no function, or inherited
  and returning the object) gives no primitive, and the coercion throws a \<open>TypeError\<close>.
\<close>

fun json_to_string :: "('n \<Rightarrow> string) \<Rightarrow> 'n json \<Rightarrow> error + string"
  and json_elements :: "('n \<Rightarrow> string) \<Rightarrow> 'n json list \<Rightarrow> error + string list" where
  "json_to_string str JNull = Inr ''null''"
| "json_to_string str (JBool b) = Inr (if b then ''true'' else ''false'')"
| "json_to_string str (JNumber n) = Inr (str n)"
| "json_to_string str (JString s) = Inr s"
| "json_to_string str (JArray xs) =
     (case json_elements str xs of Inl e \<Rightarrow> Inl e | Inr ts \<Rightarrow> Inr (join '','' ts))"
| "json_to_string str (JObject ps) =
     (if ''toString'' \<in> set (map fst ps) then Inl TypeError else Inr ''[object Object]'')"
| "json_elements str [] = Inr []"
| "json_elements str (x # xs) =
     (case (case x of JNull \<Rightarrow> Inr '''' | _ \<Rightarrow> json_to_string str x) of
        Inl e \<Rightarrow> Inl e
      | Inr t \<Rightarrow> (case json_elements str xs of Inl e \<Rightarrow> Inl e | Inr ts \<Rightarrow> Inr (t # ts)))"

subsection \<open>The \<open>Table\<close> component\<close>

text \<open>
  The component's state variables, together with the requests it has issued so far
  (oldest first) and the positions in that list of those whose promise is not settled yet.
  \<open>data = None\<close> is \<^verbatim>\<open>undefined\<close>; the type \<^verbatim>\<open>Data\<close> is erased at run time, so
  \<open>data\<close> holds whatever the body parsed to.  Field values are compared by
  \<^verbatim>\<open>Object.is\<close> in the runtime, which is equality of the type \<open>'n\<close> here.
\<close>

record 'n table =
  aroma :: 'n
  flavor :: 'n
  acidity :: 'n
  sweetness :: 'n
  data :: "'n json option"
  issued :: "request list"
  pending :: "nat list"

datatype field = Aroma | Flavor | Acidity | Sweetness

fun field_value :: "field \<Rightarrow> 'n table \<Rightarrow> 'n" where
  "field_value Aroma s = aroma s"
| "field_value Flavor s = flavor s"
| "field_value Acidity s = acidity s"
| "field_value Sweetness s = sweetness s"

fun set_field :: "field \<Rightarrow> 'n \<Rightarrow> 'n table \<Rightarrow> 'n table" where
  "set_field Aroma v s = s\<lparr>aroma := v\<rparr>"
| "set_field Flavor v s = s\<lparr>flavor := v\<rparr>"
| "set_field Acidity v s = s\<lparr>acidity := v\<rparr>"
| "set_field Sweetness v s = s\<lparr>sweetness := v\<rparr>"

text \<open>
  The body of the effect: \<^verbatim>\<open>setData(undefined)\<close>, then the call of \<open>getData\<close> on the
  four state variables, whose request goes out at once and is pending from then on.
\<close>

definition effect :: "bool \<Rightarrow> ('n \<Rightarrow> string) \<Rightarrow> 'n table \<Rightarrow> 'n table" where
  "effect dev str s =
     s\<lparr>data := None,
       issued := issued s @ [getData dev str (FilterSet (aroma s) (flavor s) (acidity s) (sweetness s))],
       pending := pending s @ [length (issued s)]\<rparr>"

text \<open>The first render: every field is 8, there is no data, and the effect runs once.\<close>

definition mount :: "bool \<Rightarrow> ('n::numeral \<Rightarrow> string) \<Rightarrow> 'n table" where
  "mount dev str =
     effect dev str
       \<lparr>aroma = 8, flavor = 8, acidity = 8, sweetness = 8, data = None, issued = [],
        pending = []\<rparr>"

text \<open>
  What can happen to a mounted form:
  \<^item> \<open>Update f v\<close>: the input of field \<open>f\<close> calls \<^verbatim>\<open>props.update\<close> with \<open>v\<close>, its
    \<^verbatim>\<open>valueAsNumber\<close>.  A state setter called with the value already held changes
    nothing and renders nothing; otherwise the component renders again and, one of its
    dependencies having changed, the effect runs;
  \<^item> \<open>Resolved i body\<close>: the promise of the \<open>i\<close>-th request is fulfilled with the parsed
    body, and the \<^verbatim>\<open>then\<close> callback stores it with \<^verbatim>\<open>setData\<close>;
  \<^item> \<open>Rejected i\<close>: that promise is rejected (network failure, malformed body); nothing
    handles it.
  A promise settles once, so the last two act on a pending request only.
\<close>

datatype 'n event =
  Update field 'n
| Resolved nat "'n json"
| Rejected nat

fun step :: "bool \<Rightarrow> ('n \<Rightarrow> string) \<Rightarrow> 'n table \<Rightarrow> 'n event \<Rightarrow> 'n table" where
  "step dev str s (Update f v) =
     (if v = field_value f s then s else effect dev str (set_field f v s))"
| "step dev str s (Resolved i body) =
     (if i \<in> set (pending s) then s\<lparr>data := Some body, pending := removeAll i (pending s)\<rparr>
      else s)"
| "step dev str s (Rejected i) =
     (if i \<in> set (pending s) then s\<lparr>pending := removeAll i (pending s)\<rparr> else s)"

definition run :: "bool \<Rightarrow> ('n \<Rightarrow> string) \<Rightarrow> 'n table \<Rightarrow> 'n event list \<Rightarrow> 'n table" where
  "run dev str s evs = foldl (step dev str) s evs"

fun is_response :: "'n event \<Rightarrow> bool" where
  "is_response (Resolved i body) = True"
| "is_response _ = False"

subsection \<open>What the component renders\<close>

text \<open>
  The rendered tree, as far as it varies: the four labelled inputs with their values, the
  texts of the header cells, and the texts of the body cells row by row.
\<close>

record 'n rendered =
  inputs :: "(string \<times> 'n) list"
  thead :: "string list"
  tbody :: "string list list"

text \<open>The results of a list of computations in order, or the first error among them.\<close>

fun collect :: "('e + 'a) list \<Rightarrow> 'e + 'a list" where
  "collect [] = Inr []"
| "collect (x # xs) =
     (case x of
        Inl e \<Rightarrow> Inl e
      | Inr v \<Rightarrow> (case collect xs of Inl e \<Rightarrow> Inl e | Inr vs \<Rightarrow> Inr (v # vs)))"

text \<open>
  \<open>Row\<close>: the texts of the cells of a row.  \<^verbatim>\<open>props.row.map\<close> is a function on an array
  only: on \<open>null\<close> the property access throws, on any other value the call does.  Each
  cell holds the string coercion of its value, which may throw.
\<close>

definition Row :: "('n \<Rightarrow> string) \<Rightarrow> 'n json \<Rightarrow> error + string list" where
  "Row str row =
     (case row of
        JArray ds \<Rightarrow> collect (map (\<lambda>d. json_to_string str d) ds)
      | _ \<Rightarrow> Inl TypeError)"

text \<open>
  The receiver of \<^verbatim>\<open>map\<close> in the body of the table, \<^verbatim>\<open>data ?? []\<close>: the empty array
  for \<^verbatim>\<open>undefined\<close> and \<open>null\<close>.  A value that is no array has no function \<^verbatim>\<open>map\<close>.
\<close>

definition data_rows :: "'n json option \<Rightarrow> error + 'n json list" where
  "data_rows d =
     (case d of
        None \<Rightarrow> Inr []
      | Some JNull \<Rightarrow> Inr []
      | Some (JArray rows) \<Rightarrow> Inr rows
      | Some _ \<Rightarrow> Inl TypeError)"

text \<open>The tree \<open>Table\<close> returns, around given rows of the body.\<close>

definition Table_element :: "'n table \<Rightarrow> string list list \<Rightarrow> 'n rendered" where
  "Table_element s trs =
     \<lparr>inputs = [(''Aroma'', aroma s), (''Flavor'', flavor s), (''Acidity'', acidity s),
                (''Sweetness'', sweetness s)],
      thead = [''Owner'', ''Aroma'', ''Flavor'', ''Acidity'', ''Sweetness''],
      tbody = trs\<rparr>"

text \<open>
  A render of the component: the tree, or the error thrown while rendering.  No error
  boundary surrounds the component, so on an error React removes the whole tree and
  nothing is on the page: neither rows, nor header, nor inputs.
\<close>

definition Table :: "('n \<Rightarrow> string) \<Rightarrow> 'n table \<Rightarrow> error + 'n rendered" where
  "Table str s =
     (case data_rows (data s) of
        Inl e \<Rightarrow> Inl e
      | Inr rows \<Rightarrow>
          (case collect (map (\<lambda>row. Row str row) rows) of
             Inl e \<Rightarrow> Inl e
           | Inr trs \<Rightarrow> Inr (Table_element s trs)))"

section \<open>Benchmark charts: the builders\<close>

subsection \<open>Helpers of the runtime\<close>

text \<open>
  \<^verbatim>\<open>String.prototype.replace\<close> with a string pattern: the first occurrence is replaced.
\<close>

fun replace :: "string \<Rightarrow> string \<Rightarrow> string \<Rightarrow> string" where
  "replace pat rep [] = (if pat = [] then rep else [])"
| "replace pat rep (c # cs) =
     (if prefix pat (c # cs) then rep @ drop (length pat) (c # cs)
      else c # replace pat rep cs)"

text \<open>
  \<^verbatim>\<open>toFixed(0)\<close>: a number that is not finite is written by \<open>str\<close>; otherwise the sign,
  then the magnitude by \<open>str\<close> from \<open>10^21\<close> on and else rounded to the nearest integer,
  the larger one at a tie.
\<close>

definition toFixed0 :: "(number \<Rightarrow> string) \<Rightarrow> number \<Rightarrow> string" where
  "toFixed0 str v =
     (case v of
        Fin q \<Rightarrow>
          (let s = (if q < 0 then ''-'' else ''''); a = \<bar>q\<bar>
           in if 10 ^ 21 \<le> a then s @ str (Fin a) else s @ digits10 (nat \<lfloor>a + 1 / 2\<rfloor>))
      | _ \<Rightarrow> str v)"

text \<open>\<^verbatim>\<open>xs.map((datum, index) => ...)\<close>: the elements with their positions.\<close>

definition indexed :: "'a list \<Rightarrow> ('a \<times> nat) list" where
  "indexed xs = zip xs [0..<length xs]"

subsection \<open>Fixtures and chart configurations\<close>

text \<open>
  The records of the fixtures: a sample of the insert and Fibonacci runs
  (\<^verbatim>\<open>Datum\<close>), and a sample of the SupaBase utilization, whose \<open>cpuPercent\<close> may be
  missing (\<open>None\<close> for \<^verbatim>\<open>null\<close> and \<^verbatim>\<open>undefined\<close>).
\<close>

record datum =
  cpu :: number
  rss :: number
  elapsed :: number

record utilization =
  memUsageKb :: number
  cpuPercent :: "number option"

record point =
  point_x :: number
  point_y :: number

datatype series = Values "number list" | Points "point list"

datatype chart_label = LabelString string | LabelNumber number

text \<open>A dataset; a property the literal leaves out is \<open>None\<close>.  \<open>ds_data\<close> is \<^verbatim>\<open>data\<close>.\<close>

record dataset =
  label :: string
  ds_data :: series
  backgroundColor :: "string option"
  borderColor :: "string option"
  yAxisID :: "string option"
  fill :: "bool option"
  showLine :: "bool option"
  pointStyle :: "bool option"

record chart_data =
  labels :: "chart_label list option"
  datasets :: "dataset list"

text \<open>
  An axis of the \<^verbatim>\<open>scales\<close> property: \<open>title\<close> is the text of a displayed title,
  \<open>axis_max\<close> is \<^verbatim>\<open>max\<close>, \<open>ticks_display\<close> and \<open>ticks_callback\<close> are the two properties
  of \<^verbatim>\<open>ticks\<close>.
\<close>

record axis =
  position :: "string option"
  stacked :: "bool option"
  title :: "string option"
  axis_max :: "number option"
  ticks_display :: "bool option"
  ticks_callback :: "(tick_value \<Rightarrow> nat \<Rightarrow> string option) option"

definition no_axis :: axis where
  "no_axis =
     \<lparr>position = None, stacked = None, title = None, axis_max = None, ticks_display = None,
      ticks_callback = None\<rparr>"

datatype component = BarChart | LineChart | ScatterChart

text \<open>The element a builder returns: the component and its two properties.\<close>

record chart =
  component :: component
  chart_data :: chart_data
  scales :: "(string \<times> axis) list option"

subsection \<open>Module state\<close>

record colors =
  payload :: string
  supabase :: string
  pocketbase0 :: string
  pocketbase1 :: string
  trailbase0 :: string
  trailbase1 :: string
  trailbase2 :: string
  drizzle :: string

definition colors_literal :: colors where
  "colors_literal =
     \<lparr>colors.payload = ''rgb(0, 101, 101)'',
      colors.supabase = ''rgb(62, 207, 142)'',
      pocketbase0 = ''rgb(230, 128, 30)'',
      pocketbase1 = ''rgb(238, 175, 72)'',
      trailbase0 = ''rgb(0, 115, 170)'',
      trailbase1 = ''rgb(71, 161, 205)'',
      trailbase2 = ''rgb(146, 209, 242)'',
      colors.drizzle = ''rgb(249, 39, 100)''\<rparr>"

text \<open>A dataset of a bar chart as the literals of \<open>durations100k\<close> write it.\<close>

definition bar :: "string \<Rightarrow> number list \<Rightarrow> string option \<Rightarrow> dataset" where
  "bar l d c =
     \<lparr>label = l, ds_data = Values d, backgroundColor = c, borderColor = None,
      yAxisID = None, fill = None, showLine = None, pointStyle = None\<rparr>"

record durations100k =
  payload :: dataset
  supabase :: dataset
  pocketbase_ts :: dataset
  pocketbase_dart_aot :: dataset
  pocketbase_dart_jit :: dataset
  trailbase_ts :: dataset
  trailbase_dart_aot :: dataset
  trailbase_dart_jit :: dataset
  trailbase_dart_jit_int_pk :: dataset
  drizzle :: dataset

definition durations100k_literal :: "colors \<Rightarrow> durations100k" where
  "durations100k_literal c =
     \<lparr>durations100k.payload =
        bar ''Payload v3+SQLite'' [number_value (65609 / 100)] (Some (colors.payload c)),
      durations100k.supabase = bar ''SupaBase'' [Fin 151] (Some (colors.supabase c)),
      pocketbase_ts = bar ''PocketBase TS'' [number_value (67721 / 1000)] (Some (pocketbase0 c)),
      pocketbase_dart_aot = bar ''PocketBase Dart (AOT)'' [number_value (628136 / 10000)] None,
      pocketbase_dart_jit =
        bar ''PocketBase Dart (JIT)'' [number_value (61687 / 1000)] (Some (pocketbase1 c)),
      trailbase_ts = bar ''TrailBase TS'' [number_value (16742 / 1000)] (Some (trailbase0 c)),
      trailbase_dart_aot = bar ''TrailBase Dart (AOT)'' [number_value (111 / 10)] None,
      trailbase_dart_jit = bar ''TrailBase Dart'' [number_value (94247 / 10000)] (Some (trailbase1 c)),
      trailbase_dart_jit_int_pk =
        bar ''TrailBase Dart (INT PK)'' [number_value (85249 / 10000)] (Some (trailbase2 c)),
      durations100k.drizzle =
        bar ''In-process SQLite (Drizzle)'' [number_value (8803 / 1000)] (Some (colors.drizzle c))\<rparr>"

text \<open>
  Everything a builder can reach: the two objects of the module and the five imported
  fixtures.  The SupaBase fixture is an object from container names to samples, kept as
  its entries in the order \<^verbatim>\<open>Object.keys\<close> walks them.  The fixtures are data files:
  their contents are arbitrary here.
\<close>

record module =
  colors :: colors
  durations100k :: durations100k
  supabaseUtilization :: "(string \<times> utilization list) list"
  insertTrailBase :: "datum list"
  insertPocketBase :: "datum list"
  fibTrailBase :: "datum list"
  fibPocketBase :: "datum list"

text \<open>The module once loaded, on given fixtures.\<close>

definition module_loaded ::
  "(string \<times> utilization list) list \<Rightarrow> datum list \<Rightarrow> datum list \<Rightarrow> datum list \<Rightarrow> datum list
     \<Rightarrow> module" where
  "module_loaded su itb ipb ftb fpb =
     \<lparr>colors = colors_literal, durations100k = durations100k_literal colors_literal,
      supabaseUtilization = su, insertTrailBase = itb, insertPocketBase = ipb,
      fibTrailBase = ftb, fibPocketBase = fpb\<rparr>"

subsection \<open>Builders\<close>

text \<open>
  A builder runs on the module and returns the element together with the module as it
  leaves it.  \<open>str\<close> and \<open>to_num\<close> are the runtime's coercions the tick callbacks use.
\<close>

definition Duration100kInsertsChart :: "module \<Rightarrow> chart \<times> module" where
  "Duration100kInsertsChart m =
     (let d = \<lparr>labels = Some [LabelString ''Time in seconds (lower is faster)''],
               datasets =
                 [durations100k.supabase (durations100k m),
                  pocketbase_ts (durations100k m),
                  pocketbase_dart_jit (durations100k m),
                  trailbase_ts (durations100k m),
                  trailbase_dart_jit (durations100k m),
                  durations100k.drizzle (durations100k m)]\<rparr>
      in (\<lparr>component = BarChart, chart_data = d, scales = None\<rparr>, m))"

definition Duration100kInsertsChartMoreResults :: "module \<Rightarrow> chart \<times> module" where
  "Duration100kInsertsChartMoreResults m =
     (let d = \<lparr>labels = Some [LabelString ''Time in seconds (lower is faster)''],
               datasets =
                 [durations100k.payload (durations100k m),
                  durations100k.supabase (durations100k m),
                  pocketbase_ts (durations100k m),
                  pocketbase_dart_jit (durations100k m),
                  trailbase_ts (durations100k m),
                  trailbase_dart_jit (durations100k m),
                  durations100k.drizzle (durations100k m)]\<rparr>
      in (\<lparr>component = BarChart, chart_data = d, scales = None\<rparr>, m))"

text \<open>The percentiles of a latency measurement, in microseconds.\<close>

record percentiles =
  p50 :: number
  p75 :: number
  p90 :: number
  p95 :: number

definition latenciesMs :: "percentiles \<Rightarrow> number list" where
  "latenciesMs d = map (\<lambda>p. number_div p (Fin 1000)) [p50 d, p75 d, p90 d, p95 d]"

definition percentile_labels :: "chart_label list" where
  "percentile_labels = [LabelString ''p50'', LabelString ''p75'', LabelString ''p90'', LabelString ''p95'']"

definition PocketBaseAndTrailBaseReadLatencies :: "module \<Rightarrow> chart \<times> module" where
  "PocketBaseAndTrailBaseReadLatencies m =
     (let readTrailbaseMicroS = \<lparr>p50 = Fin 3504, p75 = Fin 3947, p90 = Fin 4393, p95 = Fin 4725\<rparr>;
          readPocketbaseMicroS =
            \<lparr>p50 = Fin 12740, p75 = Fin 13718, p90 = Fin 14755, p95 = Fin 15495\<rparr>;
          d = \<lparr>labels = Some percentile_labels,
               datasets =
                 [bar ''PocketBase'' (latenciesMs readPocketbaseMicroS) (Some (pocketbase0 (colors m))),
                  bar ''TrailBase'' (latenciesMs readTrailbaseMicroS) (Some (trailbase0 (colors m)))]\<rparr>
      in (\<lparr>component = BarChart, chart_data = d,
           scales = Some [(''y'', no_axis\<lparr>title := Some ''Read Latency [ms]''\<rparr>)]\<rparr>, m))"

definition PocketBaseAndTrailBaseInsertLatencies :: "module \<Rightarrow> chart \<times> module" where
  "PocketBaseAndTrailBaseInsertLatencies m =
     (let insertTrailbaseMicroS =
            \<lparr>p50 = Fin 8107, p75 = Fin 10897, p90 = Fin 15327, p95 = Fin 19627\<rparr>;
          insertPocketbaseMicroS =
            \<lparr>p50 = Fin 28160, p75 = Fin 58570, p90 = Fin 108325, p95 = Fin 157601\<rparr>;
          d = \<lparr>labels = Some percentile_labels,
               datasets =
                 [bar ''PocketBase'' (latenciesMs insertPocketbaseMicroS) (Some (pocketbase0 (colors m))),
                  bar ''TrailBase'' (latenciesMs insertTrailbaseMicroS) (Some (trailbase0 (colors m)))]\<rparr>
      in (\<lparr>component = BarChart, chart_data = d,
           scales = Some [(''y'', no_axis\<lparr>title := Some ''Insert Latency [ms]''\<rparr>)]\<rparr>, m))"

text \<open>A dataset of the two SupaBase line charts.\<close>

definition area :: "string \<Rightarrow> point list \<Rightarrow> dataset" where
  "area l d =
     \<lparr>label = l, ds_data = Points d, backgroundColor = None, borderColor = None,
      yAxisID = None, fill = Some True, showLine = Some False, pointStyle = Some False\<rparr>"

text \<open>\<^verbatim>\<open>[...Array(330).keys()]\<close>\<close>

definition sample_labels :: "chart_label list" where
  "sample_labels = map (\<lambda>i. LabelNumber (Fin (of_nat i))) [0..<330]"

definition SupaBaseMemoryUsageChart ::
  "(number \<Rightarrow> string) \<Rightarrow> (string \<Rightarrow> number) \<Rightarrow> module \<Rightarrow> chart \<times> module" where
  "SupaBaseMemoryUsageChart str to_num m =
     (let d = \<lparr>labels = Some sample_labels,
               datasets =
                 map (\<lambda>(key, samples).
                        area (replace ''supabase-'' '''' key)
                          (map (\<lambda>(datum, index).
                                  \<lparr>point_x = Fin (of_nat index), point_y = memUsageKb datum\<rparr>)
                             (indexed samples)))
                   (supabaseUtilization m)\<rparr>
      in (\<lparr>component = LineChart, chart_data = d,
           scales = Some
             [(''y'', no_axis
                 \<lparr>stacked := Some True, title := Some ''Memory Usage [GB]'',
                  ticks_callback := Some (\<lambda>value unused_index.
                    Some (toFixed0 str
                      (number_div (number_div (unary_plus to_num value) (Fin 1024)) (Fin 1024))))\<rparr>),
              (''x'', no_axis
                 \<lparr>ticks_display := Some True,
                  ticks_callback := Some (transformTimeTicks str (Fin (1 / 2)))\<rparr>)]\<rparr>, m))"

definition SupaBaseCpuUsageChart :: "(number \<Rightarrow> string) \<Rightarrow> module \<Rightarrow> chart \<times> module" where
  "SupaBaseCpuUsageChart str m =
     (let d = \<lparr>labels = Some sample_labels,
               datasets =
                 map (\<lambda>(key, samples).
                        area (replace ''supabase-'' '''' key)
                          (map (\<lambda>(datum, index).
                                  \<lparr>point_x = Fin (of_nat index),
                                   point_y = (case cpuPercent datum of None \<Rightarrow> Fin 0 | Some c \<Rightarrow> c)\<rparr>)
                             (indexed samples)))
                   (supabaseUtilization m)\<rparr>
      in (\<lparr>component = LineChart, chart_data = d,
           scales = Some
             [(''y'', no_axis\<lparr>stacked := Some True, title := Some ''CPU Cores''\<rparr>),
              (''x'', no_axis
                 \<lparr>ticks_display := Some True,
                  ticks_callback := Some (transformTimeTicks str (Fin (1 / 2)))\<rparr>)]\<rparr>, m))"

text \<open>A dataset of the two scatter charts: one measure of a run against the elapsed time.\<close>

definition trace :: "string \<Rightarrow> string \<Rightarrow> (datum \<Rightarrow> number) \<Rightarrow> datum list \<Rightarrow> string \<Rightarrow> dataset" where
  "trace axis_id l pick samples c =
     \<lparr>label = l,
      ds_data = Points (map (\<lambda>datum. \<lparr>point_x = elapsed datum, point_y = pick datum\<rparr>) samples),
      backgroundColor = Some c, borderColor = Some c, yAxisID = Some axis_id, fill = None,
      showLine = Some True, pointStyle = None\<rparr>"

text \<open>The two vertical axes the scatter charts share.\<close>

definition yLeft :: axis where
  "yLeft = no_axis\<lparr>position := Some ''left'', title := Some ''CPU Cores''\<rparr>"

definition yRight :: "(number \<Rightarrow> string) \<Rightarrow> (string \<Rightarrow> number) \<Rightarrow> axis" where
  "yRight str to_num =
     no_axis
       \<lparr>position := Some ''right'', title := Some ''Resident Memory Size [MB]'',
        ticks_callback := Some (\<lambda>value unused_index.
          Some (toFixed0 str (number_div (unary_plus to_num value) (Fin 1024))))\<rparr>"

definition PocketBaseAndTrailBaseUsageChart ::
  "(number \<Rightarrow> string) \<Rightarrow> (string \<Rightarrow> number) \<Rightarrow> module \<Rightarrow> chart \<times> module" where
  "PocketBaseAndTrailBaseUsageChart str to_num m =
     (let trailbaseUtilization = insertTrailBase m;
          pocketbaseUtilization = insertPocketBase m;
          d = \<lparr>labels = None,
               datasets =
                 [trace ''yLeft'' ''TrailBase CPU'' cpu trailbaseUtilization (trailbase0 (colors m)),
                  trace ''yRight'' ''TrailBase RSS'' rss trailbaseUtilization (trailbase1 (colors m)),
                  trace ''yLeft'' ''PocketBase CPU'' cpu pocketbaseUtilization (pocketbase0 (colors m)),
                  trace ''yRight'' ''PocketBase RSS'' rss pocketbaseUtilization (pocketbase1 (colors m))]\<rparr>
      in (\<lparr>component = ScatterChart, chart_data = d,
           scales = Some
             [(''yLeft'', yLeft),
              (''yRight'', yRight str to_num),
              (''x'', no_axis
                 \<lparr>ticks_display := Some True,
                  ticks_callback := Some (transformMillisecondTicks str to_num)\<rparr>)]\<rparr>, m))"

definition FibonacciPocketBaseAndTrailBaseUsageChart ::
  "(number \<Rightarrow> string) \<Rightarrow> (string \<Rightarrow> number) \<Rightarrow> module \<Rightarrow> chart \<times> module" where
  "FibonacciPocketBaseAndTrailBaseUsageChart str to_num m =
     (let fibTrailBaseUtilization = fibTrailBase m;
          fibPocketBaseUtilization = fibPocketBase m;
          d = \<lparr>labels = None,
               datasets =
                 [trace ''yLeft'' ''TrailBase CPU'' cpu fibTrailBaseUtilization (trailbase0 (colors m)),
                  trace ''yRight'' ''TrailBase RSS'' rss fibTrailBaseUtilization (trailbase1 (colors m)),
                  trace ''yLeft'' ''PocketBase CPU'' cpu fibPocketBaseUtilization (pocketbase0 (colors m)),
                  trace ''yRight'' ''PocketBase RSS'' rss fibPocketBaseUtilization (pocketbase1 (colors m))]\<rparr>
      in (\<lparr>component = ScatterChart, chart_data = d,
           scales = Some
             [(''yLeft'', yLeft),
              (''yRight'', yRight str to_num),
              (''x'', no_axis
                 \<lparr>axis_max := Some (number_mul (Fin 650) (Fin 1000)),
                  ticks_display := Some True,
                  ticks_callback := Some (transformMillisecondTicks str to_num)\<rparr>)]\<rparr>, m))"

subsection \<open>Calling a builder twice\<close>

text \<open>
  Two calls of a builder in a row, the second on the module as the first left it: the
  two elements and the module after both.
\<close>

definition twice :: "(module \<Rightarrow> chart \<times> module) \<Rightarrow> module \<Rightarrow> chart \<times> chart \<times> module" where
  "twice builder m = (let (c1, m1) = builder m; (c2, m2) = builder m1 in (c1, c2, m2))"

text \<open>The points of a dataset of a line or scatter chart.\<close>

fun points :: "series \<Rightarrow> point list" where
  "points (Points ps) = ps"
| "points (Values vs) = []"


section \<open>Properties of the tick-label formatters\<close>

lemma rat_trunc_of_int: "rat_trunc (of_int k) = k"
  by (simp add: rat_trunc_def)

text \<open>
  The remainder by 1000 is strictly equal to zero exactly on the integer multiples of
  1000; on \<open>NaN\<close> and the infinities it is \<open>NaN\<close>.
\<close>

lemma rem_1000_zero_iff:
  "number_strict_eq (number_rem v (Fin 1000)) (Fin 0) \<longleftrightarrow> (\<exists>k::int. v = Fin (1000 * of_int k))"
proof (cases v)
  case (Fin a)
  show ?thesis
  proof
    assume "number_strict_eq (number_rem v (Fin 1000)) (Fin 0)"
    with Fin have "a = 1000 * of_int (rat_trunc (a / 1000))" by simp
    with Fin show "\<exists>k::int. v = Fin (1000 * of_int k)" by blast
  next
    assume "\<exists>k::int. v = Fin (1000 * of_int k)"
    then obtain k :: int where "v = Fin (1000 * of_int k)" ..
    then show "number_strict_eq (number_rem v (Fin 1000)) (Fin 0)"
      by (simp add: rat_trunc_of_int)
  qed
qed simp_all

lemma number_value_2: "number_value 2 = Fin 2"
  by code_simp

lemma number_value_5: "number_value 5 = Fin 5"
  by code_simp

lemma number_to_string_1: "number_to_string rest (Fin 1) = ''1''"
  by code_simp

lemma number_to_string_2: "number_to_string rest (Fin 2) = ''2''"
  by code_simp

lemma number_to_string_5: "number_to_string rest (Fin 5) = ''5''"
  by code_simp

lemma number_to_string_8: "number_to_string rest (Fin 8) = ''8''"
  by code_simp

text \<open>
  C4.  For every index \<open>i\<close> and factor \<open>f\<close>, the transformer \<open>transformTimeTicks f\<close>
  returns the label made of a tilde, the string coercion of \<open>i * f\<close> and the letter s
  when 10 divides \<open>i\<close>, and no label otherwise, whatever the tick value.  With the factor
  0.5 the label at index 10 is \<open>~5s\<close>, and there is none at index 7.
\<close>

theorem transformTimeTicks_label:
  "transformTimeTicks str f tick i =
     (if 10 dvd i then Some (''~'' @ str (number_mul (Fin (of_nat i)) f) @ ''s'') else None)
   \<and> transformTimeTicks (number_to_string rest) (Fin (1 / 2)) tick 10 = Some ''~5s''
   \<and> transformTimeTicks (number_to_string rest) (Fin (1 / 2)) tick 7 = None"
  by (simp add: transformTimeTicks_def number_value_5 number_to_string_5 dvd_eq_mod_eq_0)

text \<open>
  C5.  For every number \<open>v\<close>, \<open>transformMillisecondTicks\<close> returns the string coercion
  of \<open>v / 1000\<close> followed by the letter s when \<open>v\<close> is an integer multiple of 1000,
  and no label otherwise (a fraction, \<open>NaN\<close>, an infinity).  The label of 2000 is \<open>2s\<close>,
  and 2500 has none.
\<close>

theorem transformMillisecondTicks_label:
  "transformMillisecondTicks str to_num (TickNumber v) i =
     (if \<exists>k::int. v = Fin (1000 * of_int k)
      then Some (str (number_div v (Fin 1000)) @ ''s'') else None)
   \<and> transformMillisecondTicks (number_to_string rest) to_num (TickNumber (Fin 2000)) i = Some ''2s''
   \<and> transformMillisecondTicks (number_to_string rest) to_num (TickNumber (Fin 2500)) i = None"
proof -
  have general: "transformMillisecondTicks str to_num (TickNumber v) i =
     (if \<exists>k::int. v = Fin (1000 * of_int k)
      then Some (str (number_div v (Fin 1000)) @ ''s'') else None)"
    by (simp add: transformMillisecondTicks_def rem_1000_zero_iff)
  have at_2000:
    "transformMillisecondTicks (number_to_string rest) to_num (TickNumber (Fin 2000)) i = Some ''2s''"
    by (simp add: transformMillisecondTicks_def rat_trunc_def number_value_2 number_to_string_2)
  have at_2500:
    "transformMillisecondTicks (number_to_string rest) to_num (TickNumber (Fin 2500)) i = None"
    by code_simp
  from general at_2000 at_2500 show ?thesis by blast
qed

section \<open>Properties of the search form\<close>

text \<open>
  C1.  For the filter set \<open>{aroma, flavor, acidity, sweetness}\<close>, \<open>getData\<close> issues a
  \<open>GET\<close> to \<open>base/search?aroma=..&flavor=..&acidity=..&sweetness=..\<close>, the four
  parameters in this order and each value written by string coercion; \<open>base\<close> is empty in
  a packaged build and \<open>http://localhost:4000\<close> in a development build.  On the default
  values of a packaged build the URL is \<open>/search?aroma=8&flavor=8&acidity=8&sweetness=8\<close>.
\<close>

theorem getData_request:
  "getData dev str (FilterSet a f c w) =
     \<lparr>req_method = ''GET'',
      req_url = (if dev then ''http://localhost:4000'' else '''') @ ''/search?aroma='' @ str a
        @ ''&flavor='' @ str f @ ''&acidity='' @ str c @ ''&sweetness='' @ str w\<rparr>
   \<and> req_url (getData False (number_to_string rest) (FilterSet (Fin 8) (Fin 8) (Fin 8) (Fin 8)))
       = ''/search?aroma=8&flavor=8&acidity=8&sweetness=8''"
  by (simp add: getData_def FilterSet_def fetch_def number_to_string_8)

subsection \<open>Rendering\<close>

lemma collect_Inr: "collect (map Inr xs) = Inr xs"
  by (induction xs) simp_all

lemma collect_rows:
  "map (map f) cells = map (map Inr) texts \<Longrightarrow>
   collect (map (\<lambda>ds. collect (map f ds)) cells) = Inr texts"
proof (induction cells arbitrary: texts)
  case Nil
  then show ?case by simp
next
  case (Cons ds cells)
  then obtain t ts where texts: "texts = t # ts" by (cases texts) auto
  with Cons.prems have "map f ds = map Inr t" and "map (map f) cells = map (map Inr) ts"
    by simp_all
  with Cons.IH texts show ?case by (simp add: collect_Inr)
qed

lemma Table_of_rows:
  "Table str (s\<lparr>data := Some (JArray rows)\<rparr>) =
     (case collect (map (Row str) rows) of
        Inl e \<Rightarrow> Inl e | Inr trs \<Rightarrow> Inr (Table_element s trs))"
  by (simp add: Table_def data_rows_def Table_element_def split: sum.splits)

lemma collect_Inl: "Inl e \<in> set xs \<Longrightarrow> \<exists>e'. collect xs = Inl e'"
  by (induction xs) (auto split: sum.splits)

text \<open>
  A result set given by its rows of values: when every value has a string coercion the
  render gives the rows of these coercions, and when the coercion of one value throws the
  render throws.
\<close>

lemma Table_of_cells:
  assumes "map (map (json_to_string str)) cells = map (map Inr) texts"
  shows "Table str (s\<lparr>data := Some (JArray (map JArray cells))\<rparr>) = Inr (Table_element s texts)"
proof -
  have "map (Row str) (map JArray cells) = map (\<lambda>ds. collect (map (json_to_string str) ds)) cells"
    by (simp add: Row_def)
  with assms show ?thesis
    by (simp only: Table_of_rows collect_rows sum.case)
qed

lemma Table_throws:
  assumes "row \<in> set cells" and "d \<in> set row" and "json_to_string str d = Inl e"
  shows "Table str (s\<lparr>data := Some (JArray (map JArray cells))\<rparr>) = Inl TypeError"
proof -
  from assms(2,3) have "Inl e \<in> set (map (json_to_string str) row)"
    by (metis image_eqI set_map)
  from collect_Inl [OF this]
  obtain e' where "collect (map (json_to_string str) row) = Inl e'" ..
  then have "Row str (JArray row) = Inl e'"
    by (simp add: Row_def)
  with assms(1) have "Inl e' \<in> set (map (Row str) (map JArray cells))"
    by (metis image_eqI set_map)
  from collect_Inl [OF this]
  obtain e'' where "collect (map (Row str) (map JArray cells)) = Inl e''" ..
  then have thrown: "Table str (s\<lparr>data := Some (JArray (map JArray cells))\<rparr>) = Inl e''"
    by (simp only: Table_of_rows sum.case)
  show ?thesis
    by (cases e'') (simp only: thrown)
qed


lemma Table_no_data: "data s = None \<Longrightarrow> Table str s = Inr (Table_element s [])"
  by (simp add: Table_def data_rows_def)

lemma digits10_1: "digits10 1 = ''1''"
  by code_simp

lemma digits10_2: "digits10 2 = ''2''"
  by code_simp

lemma digits10_8: "digits10 8 = ''8''"
  by code_simp

lemma digits10_9: "digits10 9 = ''9''"
  by code_simp

text \<open>The mounted form and the form after one change of the aroma, on natural numbers.\<close>

lemma mount_nat:
  "(mount False digits10 :: nat table) =
     \<lparr>aroma = 8, flavor = 8, acidity = 8, sweetness = 8, data = None,
      issued = [\<lparr>req_method = ''GET'', req_url = ''/search?aroma=8&flavor=8&acidity=8&sweetness=8''\<rparr>],
      pending = [0]\<rparr>"
  by code_simp


text \<open>
  C2, as the claim states it, fails.  The first response is \<open>[[{"toString": 1}]]\<close>: one
  row of one value, an object with an own property \<open>toString\<close>.  Its string coercion
  throws, so the render throws and no row is on the page.
\<close>

theorem Table_rows_counterexample:
  "Table digits10 (run False digits10 (mount False digits10 :: nat table)
      [Resolved 0 (JArray [JArray [JObject [(''toString'', JNumber 1)]]])]) = Inl TypeError"
  by code_simp

text \<open>
  C2, amended.  For every result set, a sequence of rows that are each a sequence of
  values, in which every value has a string coercion, the body of the table has one row
  per row of the result set and one cell per value of the row, each holding the string
  coercion of the value; when the coercion of a value of the result set throws, the
  render throws and there is no row.  The result set \<open>[[1, "a"], [2, "b"]]\<close> gives the
  two rows \<open>1, a\<close> and \<open>2, b\<close>; an empty result set and an undefined one give no row.
\<close>

theorem Table_rows:
  "(map (map (json_to_string str)) cells = map (map Inr) texts \<longrightarrow>
      Table str (s\<lparr>data := Some (JArray (map JArray cells))\<rparr>) = Inr (Table_element s texts))
   \<and> (row \<in> set cells \<and> d \<in> set row \<and> json_to_string str d = Inl e \<longrightarrow>
      Table str (s\<lparr>data := Some (JArray (map JArray cells))\<rparr>) = Inl TypeError)
   \<and> Table (number_to_string rest)
        (t\<lparr>data := Some (JArray [JArray [JNumber (Fin 1), JString ''a''],
                                  JArray [JNumber (Fin 2), JString ''b'']])\<rparr>)
       = Inr (Table_element t [[''1'', ''a''], [''2'', ''b'']])
   \<and> Table str (s\<lparr>data := Some (JArray [])\<rparr>) = Inr (Table_element s [])
   \<and> Table str (s\<lparr>data := None\<rparr>) = Inr (Table_element s [])"
proof -
  have example: "Table (number_to_string rest)
        (t\<lparr>data := Some (JArray [JArray [JNumber (Fin 1), JString ''a''],
                                  JArray [JNumber (Fin 2), JString ''b'']])\<rparr>)
       = Inr (Table_element t [[''1'', ''a''], [''2'', ''b'']])"
    by (simp add: Table_of_rows Row_def number_to_string_1 number_to_string_2)
  have empty: "Table str (s\<lparr>data := Some (JArray [])\<rparr>) = Inr (Table_element s [])"
    by (simp add: Table_of_rows)
  have undefined: "Table str (s\<lparr>data := None\<rparr>) = Inr (Table_element s [])"
    by (simp add: Table_def data_rows_def Table_element_def)
  from Table_of_cells [of str cells texts s] Table_throws [of row cells d str e s]
    example empty undefined
  show ?thesis by blast
qed

theorem Table_rows_witness:
  "map (map (json_to_string digits10)) [[JNumber 1, JString ''a''], [JNumber 2, JString ''b'']]
     = map (map Inr) [[''1'', ''a''], [''2'', ''b'']]
   \<and> Table digits10
        ((mount False digits10 :: nat table)
           \<lparr>data := Some (JArray (map JArray [[JNumber 1, JString ''a''], [JNumber 2, JString ''b'']]))\<rparr>)
       = Inr (Table_element (mount False digits10) [[''1'', ''a''], [''2'', ''b'']])"
proof -
  have coercions:
    "map (map (json_to_string digits10)) [[JNumber 1, JString ''a''], [JNumber 2, JString ''b'']]
       = map (map Inr) [[''1'', ''a''], [''2'', ''b'']]"
    by code_simp
  from coercions
    Table_rows [where str = digits10
      and cells = "[[JNumber 1, JString ''a''], [JNumber 2, JString ''b'']]"
      and texts = "[[''1'', ''a''], [''2'', ''b'']]"
      and s = "mount False digits10 :: nat table", THEN conjunct1]
  show ?thesis by blast
qed

text \<open>
  C9, as the claim states it, fails.  The first response is the object
  \<open>{"error": "not found"}\<close>, which is no array: the render throws, and nothing is on the
  page, the header included.
\<close>

theorem Table_header_counterexample:
  "Table digits10 (run False digits10 (mount False digits10 :: nat table)
      [Resolved 0 (JObject [(''error'', JString ''not found'')])]) = Inl TypeError"
  by code_simp

text \<open>
  C9, amended.  In every state whose render does not throw, the header of the table is
  the five labels Owner, Aroma, Flavor, Acidity, Sweetness, in this order, whatever the
  result set is: present or not, of any length, with rows of any number of cells.
\<close>

theorem Table_header:
  assumes "Table str s = Inr r"
  shows "thead r = [''Owner'', ''Aroma'', ''Flavor'', ''Acidity'', ''Sweetness'']"
  using assms by (auto simp: Table_def Table_element_def split: sum.splits)

theorem Table_header_witness:
  "Table digits10 (run False digits10 (mount False digits10 :: nat table)
      [Resolved 0 (JArray [JArray [JString ''Ada'', JNumber 9], JArray []])])
     = Inr \<lparr>inputs = [(''Aroma'', 8), (''Flavor'', 8), (''Acidity'', 8), (''Sweetness'', 8)],
            thead = [''Owner'', ''Aroma'', ''Flavor'', ''Acidity'', ''Sweetness''],
            tbody = [[''Ada'', ''9''], []]\<rparr>
   \<and> thead \<lparr>inputs = [(''Aroma'', 8::nat), (''Flavor'', 8), (''Acidity'', 8), (''Sweetness'', 8)],
            thead = [''Owner'', ''Aroma'', ''Flavor'', ''Acidity'', ''Sweetness''],
            tbody = [[''Ada'', ''9''], []]\<rparr>
       = [''Owner'', ''Aroma'', ''Flavor'', ''Acidity'', ''Sweetness'']"
proof -
  have rendered: "Table digits10 (run False digits10 (mount False digits10 :: nat table)
      [Resolved 0 (JArray [JArray [JString ''Ada'', JNumber 9], JArray []])])
     = Inr \<lparr>inputs = [(''Aroma'', 8), (''Flavor'', 8), (''Acidity'', 8), (''Sweetness'', 8)],
            thead = [''Owner'', ''Aroma'', ''Flavor'', ''Acidity'', ''Sweetness''],
            tbody = [[''Ada'', ''9''], []]\<rparr>"
    by code_simp
  from rendered Table_header [OF rendered] show ?thesis by simp
qed

subsection \<open>Requests in flight\<close>

lemma data_effect: "data (effect dev str s) = None"
  by (simp add: effect_def)


lemma pending_set_field: "pending (set_field f v s) = pending s"
  by (cases f) simp_all

lemma issued_set_field: "issued (set_field f v s) = issued s"
  by (cases f) simp_all

lemma field_value_set_field: "field_value f (set_field f v s) = v"
  by (cases f) simp_all

lemma field_value_set_other: "g \<noteq> f \<Longrightarrow> field_value g (set_field f v s) = field_value g s"
  by (cases f; cases g) simp_all

lemma step_no_response_data:
  "data s = None \<Longrightarrow> \<not> is_response e \<Longrightarrow> data (step dev str s e) = None"
  by (cases e) (simp_all add: effect_def)

lemma run_no_response_data:
  "data s = None \<Longrightarrow> list_all (\<lambda>e. \<not> is_response e) evs \<Longrightarrow> data (run dev str s evs) = None"
  unfolding run_def
  by (induction evs arbitrary: s) (simp_all add: step_no_response_data)

text \<open>A setter called with the value the field holds issues nothing.\<close>

lemma same_value_issues_nothing: "step dev str s (Update f (field_value f s)) = s"
  by simp

text \<open>
  C3, as the claim states it, fails.  After the mount the aroma is changed to 9 while the
  first request is still in flight; then the first request's response \<open>[[1, 2]]\<close>
  arrives.  The second request is still in flight, and the table shows the row \<open>1, 2\<close>.
\<close>

theorem in_flight_not_cleared_counterexample:
  "pending (run False digits10 (mount False digits10 :: nat table)
      [Update Aroma 9, Resolved 0 (JArray [JArray [JNumber 1, JNumber 2]])]) = [1]
   \<and> data (run False digits10 (mount False digits10 :: nat table)
      [Update Aroma 9, Resolved 0 (JArray [JArray [JNumber 1, JNumber 2]])])
       = Some (JArray [JArray [JNumber 1, JNumber 2]])
   \<and> Table digits10 (run False digits10 (mount False digits10 :: nat table)
      [Update Aroma 9, Resolved 0 (JArray [JArray [JNumber 1, JNumber 2]])])
       = Inr \<lparr>inputs = [(''Aroma'', 9), (''Flavor'', 8), (''Acidity'', 8), (''Sweetness'', 8)],
              thead = [''Owner'', ''Aroma'', ''Flavor'', ''Acidity'', ''Sweetness''],
              tbody = [[''1'', ''2'']]\<rparr>"
  by code_simp

text \<open>
  C3, amended.  When a request is issued, on the mount and on every change of a field,
  the result set is cleared to undefined whatever it was, and it stays undefined, the
  table rendered with no row, for as long as no response arrives: through further changes
  and through failures of requests.
\<close>

theorem cleared_until_response:
  assumes "list_all (\<lambda>e. \<not> is_response e) evs"
  shows "data (run dev str (mount dev str) evs) = None
    \<and> Table str (run dev str (mount dev str) evs)
        = Inr (Table_element (run dev str (mount dev str) evs) [])
    \<and> (v \<noteq> field_value f s \<longrightarrow>
         data (run dev str (step dev str s (Update f v)) evs) = None
       \<and> Table str (run dev str (step dev str s (Update f v)) evs)
           = Inr (Table_element (run dev str (step dev str s (Update f v)) evs) []))"
proof -
  have mounted: "data (run dev str (mount dev str) evs) = None"
    using assms by (simp add: run_no_response_data mount_def data_effect)
  have changed: "data (run dev str (step dev str s (Update f v)) evs) = None"
    if "v \<noteq> field_value f s"
    using assms that by (simp add: run_no_response_data data_effect)
  from mounted changed show ?thesis by (simp add: Table_no_data)
qed

theorem cleared_until_response_witness:
  "list_all (\<lambda>e. \<not> is_response e) [Update Flavor 7, Rejected 0 :: nat event]
   \<and> (9::nat) \<noteq> field_value Aroma (mount False digits10 :: nat table)
   \<and> data (run False digits10
        (step False digits10 (mount False digits10 :: nat table) (Update Aroma 9))
        [Update Flavor 7, Rejected 0]) = None
   \<and> Table digits10 (run False digits10
        (step False digits10 (mount False digits10 :: nat table) (Update Aroma 9))
        [Update Flavor 7, Rejected 0])
       = Inr (Table_element (run False digits10
           (step False digits10 (mount False digits10 :: nat table) (Update Aroma 9))
           [Update Flavor 7, Rejected 0]) [])"
  using cleared_until_response [where evs = "[Update Flavor 7, Rejected 0 :: nat event]"
      and dev = False and str = digits10 and v = 9 and f = Aroma
      and s = "mount False digits10 :: nat table"]
  by (simp add: mount_nat)

text \<open>
  C6.  A change of one field to a value other than the one it holds issues exactly one
  request: the list of issued requests grows by one \<open>GET\<close>, whose query parameters are
  the four field values after the change (the changed field at its new value, the three
  others as they were), and that request is pending.
\<close>

theorem change_issues_one_request:
  assumes "v \<noteq> field_value f s"
  shows "issued (step dev str s (Update f v)) =
      issued s @
      [\<lparr>req_method = ''GET'',
        req_url = (if dev then ''http://localhost:4000'' else '''')
          @ ''/search?aroma='' @ str (aroma (set_field f v s))
          @ ''&flavor='' @ str (flavor (set_field f v s))
          @ ''&acidity='' @ str (acidity (set_field f v s))
          @ ''&sweetness='' @ str (sweetness (set_field f v s))\<rparr>]
    \<and> field_value f (set_field f v s) = v
    \<and> (\<forall>g. g \<noteq> f \<longrightarrow> field_value g (set_field f v s) = field_value g s)
    \<and> pending (step dev str s (Update f v)) = pending s @ [length (issued s)]"
  using assms
  by (simp add: effect_def getData_def FilterSet_def fetch_def issued_set_field
      pending_set_field field_value_set_field field_value_set_other)

theorem change_issues_one_request_witness:
  "(9::nat) \<noteq> field_value Aroma (mount False digits10 :: nat table)
   \<and> issued (step False digits10 (mount False digits10 :: nat table) (Update Aroma 9)) =
      issued (mount False digits10 :: nat table) @
      [\<lparr>req_method = ''GET'', req_url = ''/search?aroma=9&flavor=8&acidity=8&sweetness=8''\<rparr>]"
  using change_issues_one_request [where v = 9 and f = Aroma
      and s = "mount False digits10 :: nat table" and dev = False and str = digits10]
  by (simp add: mount_nat digits10_8 digits10_9)



section \<open>Properties of the chart builders\<close>

lemma twice_same: "snd (b m) = m \<Longrightarrow> twice b m = (fst (b m), fst (b m), m)"
  by (cases "b m") (simp add: twice_def)

text \<open>
  C7.  Every chart builder is free of side effects and deterministic.  Run on any module,
  of any fixtures, a builder leaves the module as it found it, so a second call in a row
  returns the element of the first (\<open>twice\<close>).  On the loaded module the chart data of
  each builder are these labels, these datasets in this order, with these data values and
  these colors: they depend on nothing but the literals of the module and the fixture the
  builder reads.
\<close>

theorem chart_builders_pure:
  "snd (Duration100kInsertsChart m) = m
   \<and> snd (Duration100kInsertsChartMoreResults m) = m
   \<and> snd (PocketBaseAndTrailBaseReadLatencies m) = m
   \<and> snd (PocketBaseAndTrailBaseInsertLatencies m) = m
   \<and> snd (SupaBaseMemoryUsageChart str to_num m) = m
   \<and> snd (SupaBaseCpuUsageChart str m) = m
   \<and> snd (PocketBaseAndTrailBaseUsageChart str to_num m) = m
   \<and> snd (FibonacciPocketBaseAndTrailBaseUsageChart str to_num m) = m
   \<and> twice Duration100kInsertsChart m =
     (fst (Duration100kInsertsChart m), fst (Duration100kInsertsChart m), m)
   \<and> twice Duration100kInsertsChartMoreResults m =
     (fst (Duration100kInsertsChartMoreResults m), fst (Duration100kInsertsChartMoreResults m), m)
   \<and> twice PocketBaseAndTrailBaseReadLatencies m =
     (fst (PocketBaseAndTrailBaseReadLatencies m), fst (PocketBaseAndTrailBaseReadLatencies m), m)
   \<and> twice PocketBaseAndTrailBaseInsertLatencies m =
     (fst (PocketBaseAndTrailBaseInsertLatencies m), fst (PocketBaseAndTrailBaseInsertLatencies m), m)
   \<and> twice (SupaBaseMemoryUsageChart str to_num) m =
     (fst (SupaBaseMemoryUsageChart str to_num m), fst (SupaBaseMemoryUsageChart str to_num m), m)
   \<and> twice (SupaBaseCpuUsageChart str) m =
     (fst (SupaBaseCpuUsageChart str m), fst (SupaBaseCpuUsageChart str m), m)
   \<and> twice (PocketBaseAndTrailBaseUsageChart str to_num) m =
     (fst (PocketBaseAndTrailBaseUsageChart str to_num m),
      fst (PocketBaseAndTrailBaseUsageChart str to_num m), m)
   \<and> twice (FibonacciPocketBaseAndTrailBaseUsageChart str to_num) m =
     (fst (FibonacciPocketBaseAndTrailBaseUsageChart str to_num m),
      fst (FibonacciPocketBaseAndTrailBaseUsageChart str to_num m), m)
   \<and> chart_data (fst (Duration100kInsertsChart (module_loaded su itb ipb ftb fpb))) =
     \<lparr>labels = Some [LabelString ''Time in seconds (lower is faster)''],
      datasets =
        [bar ''SupaBase'' [Fin 151] (Some ''rgb(62, 207, 142)''),
         bar ''PocketBase TS'' [number_value (67721 / 1000)] (Some ''rgb(230, 128, 30)''),
         bar ''PocketBase Dart (JIT)'' [number_value (61687 / 1000)] (Some ''rgb(238, 175, 72)''),
         bar ''TrailBase TS'' [number_value (16742 / 1000)] (Some ''rgb(0, 115, 170)''),
         bar ''TrailBase Dart'' [number_value (94247 / 10000)] (Some ''rgb(71, 161, 205)''),
         bar ''In-process SQLite (Drizzle)'' [number_value (8803 / 1000)]
           (Some ''rgb(249, 39, 100)'')]\<rparr>
   \<and> chart_data (fst (Duration100kInsertsChartMoreResults (module_loaded su itb ipb ftb fpb))) =
     \<lparr>labels = Some [LabelString ''Time in seconds (lower is faster)''],
      datasets =
        [bar ''Payload v3+SQLite'' [number_value (65609 / 100)] (Some ''rgb(0, 101, 101)''),
         bar ''SupaBase'' [Fin 151] (Some ''rgb(62, 207, 142)''),
         bar ''PocketBase TS'' [number_value (67721 / 1000)] (Some ''rgb(230, 128, 30)''),
         bar ''PocketBase Dart (JIT)'' [number_value (61687 / 1000)] (Some ''rgb(238, 175, 72)''),
         bar ''TrailBase TS'' [number_value (16742 / 1000)] (Some ''rgb(0, 115, 170)''),
         bar ''TrailBase Dart'' [number_value (94247 / 10000)] (Some ''rgb(71, 161, 205)''),
         bar ''In-process SQLite (Drizzle)'' [number_value (8803 / 1000)]
           (Some ''rgb(249, 39, 100)'')]\<rparr>
   \<and> chart_data (fst (PocketBaseAndTrailBaseReadLatencies (module_loaded su itb ipb ftb fpb))) =
     \<lparr>labels = Some [LabelString ''p50'', LabelString ''p75'', LabelString ''p90'', LabelString ''p95''],
      datasets =
        [bar ''PocketBase''
           (map (\<lambda>p. number_div (Fin p) (Fin 1000)) [12740, 13718, 14755, 15495])
           (Some ''rgb(230, 128, 30)''),
         bar ''TrailBase''
           (map (\<lambda>p. number_div (Fin p) (Fin 1000)) [3504, 3947, 4393, 4725])
           (Some ''rgb(0, 115, 170)'')]\<rparr>
   \<and> chart_data (fst (PocketBaseAndTrailBaseInsertLatencies (module_loaded su itb ipb ftb fpb))) =
     \<lparr>labels = Some [LabelString ''p50'', LabelString ''p75'', LabelString ''p90'', LabelString ''p95''],
      datasets =
        [bar ''PocketBase''
           (map (\<lambda>p. number_div (Fin p) (Fin 1000)) [28160, 58570, 108325, 157601])
           (Some ''rgb(230, 128, 30)''),
         bar ''TrailBase''
           (map (\<lambda>p. number_div (Fin p) (Fin 1000)) [8107, 10897, 15327, 19627])
           (Some ''rgb(0, 115, 170)'')]\<rparr>
   \<and> chart_data (fst (SupaBaseMemoryUsageChart str to_num (module_loaded su itb ipb ftb fpb))) =
     \<lparr>labels = Some (map (\<lambda>i. LabelNumber (Fin (of_nat i))) [0..<330]),
      datasets =
        map (\<lambda>(key, samples).
               area (replace ''supabase-'' '''' key)
                 (map (\<lambda>(datum, index).
                         \<lparr>point_x = Fin (of_nat index), point_y = memUsageKb datum\<rparr>)
                    (indexed samples)))
          su\<rparr>
   \<and> chart_data (fst (SupaBaseCpuUsageChart str (module_loaded su itb ipb ftb fpb))) =
     \<lparr>labels = Some (map (\<lambda>i. LabelNumber (Fin (of_nat i))) [0..<330]),
      datasets =
        map (\<lambda>(key, samples).
               area (replace ''supabase-'' '''' key)
                 (map (\<lambda>(datum, index).
                         \<lparr>point_x = Fin (of_nat index),
                          point_y = (case cpuPercent datum of None \<Rightarrow> Fin 0 | Some c \<Rightarrow> c)\<rparr>)
                    (indexed samples)))
          su\<rparr>
   \<and> chart_data (fst (PocketBaseAndTrailBaseUsageChart str to_num
        (module_loaded su itb ipb ftb fpb))) =
     \<lparr>labels = None,
      datasets =
        [trace ''yLeft'' ''TrailBase CPU'' cpu itb ''rgb(0, 115, 170)'',
         trace ''yRight'' ''TrailBase RSS'' rss itb ''rgb(71, 161, 205)'',
         trace ''yLeft'' ''PocketBase CPU'' cpu ipb ''rgb(230, 128, 30)'',
         trace ''yRight'' ''PocketBase RSS'' rss ipb ''rgb(238, 175, 72)'']\<rparr>
   \<and> chart_data (fst (FibonacciPocketBaseAndTrailBaseUsageChart str to_num
        (module_loaded su itb ipb ftb fpb))) =
     \<lparr>labels = None,
      datasets =
        [trace ''yLeft'' ''TrailBase CPU'' cpu ftb ''rgb(0, 115, 170)'',
         trace ''yRight'' ''TrailBase RSS'' rss ftb ''rgb(71, 161, 205)'',
         trace ''yLeft'' ''PocketBase CPU'' cpu fpb ''rgb(230, 128, 30)'',
         trace ''yRight'' ''PocketBase RSS'' rss fpb ''rgb(238, 175, 72)'']\<rparr>"
proof -
  let ?M = "module_loaded su itb ipb ftb fpb"
  note literals = module_loaded_def durations100k_literal_def colors_literal_def
  have p1: "snd (Duration100kInsertsChart m) = m"
    by (simp add: Duration100kInsertsChart_def)
  have p2: "snd (Duration100kInsertsChartMoreResults m) = m"
    by (simp add: Duration100kInsertsChartMoreResults_def)
  have p3: "snd (PocketBaseAndTrailBaseReadLatencies m) = m"
    by (simp add: PocketBaseAndTrailBaseReadLatencies_def)
  have p4: "snd (PocketBaseAndTrailBaseInsertLatencies m) = m"
    by (simp add: PocketBaseAndTrailBaseInsertLatencies_def)
  have p5: "snd (SupaBaseMemoryUsageChart str to_num m) = m"
    by (simp add: SupaBaseMemoryUsageChart_def)
  have p6: "snd (SupaBaseCpuUsageChart str m) = m"
    by (simp add: SupaBaseCpuUsageChart_def)
  have p7: "snd (PocketBaseAndTrailBaseUsageChart str to_num m) = m"
    by (simp add: PocketBaseAndTrailBaseUsageChart_def Let_def)
  have p8: "snd (FibonacciPocketBaseAndTrailBaseUsageChart str to_num m) = m"
    by (simp add: FibonacciPocketBaseAndTrailBaseUsageChart_def Let_def)
  note pure = p1 p2 p3 p4 p5 p6 p7 p8
  have t1: "twice Duration100kInsertsChart m =
      (fst (Duration100kInsertsChart m), fst (Duration100kInsertsChart m), m)"
    using p1 by (rule twice_same)
  have t2: "twice Duration100kInsertsChartMoreResults m =
      (fst (Duration100kInsertsChartMoreResults m), fst (Duration100kInsertsChartMoreResults m), m)"
    using p2 by (rule twice_same)
  have t3: "twice PocketBaseAndTrailBaseReadLatencies m =
      (fst (PocketBaseAndTrailBaseReadLatencies m), fst (PocketBaseAndTrailBaseReadLatencies m), m)"
    using p3 by (rule twice_same)
  have t4: "twice PocketBaseAndTrailBaseInsertLatencies m =
      (fst (PocketBaseAndTrailBaseInsertLatencies m), fst (PocketBaseAndTrailBaseInsertLatencies m), m)"
    using p4 by (rule twice_same)
  have t5: "twice (SupaBaseMemoryUsageChart str to_num) m =
      (fst (SupaBaseMemoryUsageChart str to_num m), fst (SupaBaseMemoryUsageChart str to_num m), m)"
    using p5 by (rule twice_same)
  have t6: "twice (SupaBaseCpuUsageChart str) m =
      (fst (SupaBaseCpuUsageChart str m), fst (SupaBaseCpuUsageChart str m), m)"
    using p6 by (rule twice_same)
  have t7: "twice (PocketBaseAndTrailBaseUsageChart str to_num) m =
      (fst (PocketBaseAndTrailBaseUsageChart str to_num m),
       fst (PocketBaseAndTrailBaseUsageChart str to_num m), m)"
    using p7 by (rule twice_same)
  have t8: "twice (FibonacciPocketBaseAndTrailBaseUsageChart str to_num) m =
      (fst (FibonacciPocketBaseAndTrailBaseUsageChart str to_num m),
       fst (FibonacciPocketBaseAndTrailBaseUsageChart str to_num m), m)"
    using p8 by (rule twice_same)
  note again = t1 t2 t3 t4 t5 t6 t7 t8
  have d1: "chart_data (fst (Duration100kInsertsChart ?M)) =
     \<lparr>labels = Some [LabelString ''Time in seconds (lower is faster)''],
      datasets =
        [bar ''SupaBase'' [Fin 151] (Some ''rgb(62, 207, 142)''),
         bar ''PocketBase TS'' [number_value (67721 / 1000)] (Some ''rgb(230, 128, 30)''),
         bar ''PocketBase Dart (JIT)'' [number_value (61687 / 1000)] (Some ''rgb(238, 175, 72)''),
         bar ''TrailBase TS'' [number_value (16742 / 1000)] (Some ''rgb(0, 115, 170)''),
         bar ''TrailBase Dart'' [number_value (94247 / 10000)] (Some ''rgb(71, 161, 205)''),
         bar ''In-process SQLite (Drizzle)'' [number_value (8803 / 1000)]
           (Some ''rgb(249, 39, 100)'')]\<rparr>"
    by (simp add: Duration100kInsertsChart_def literals)
  have d2: "chart_data (fst (Duration100kInsertsChartMoreResults ?M)) =
     \<lparr>labels = Some [LabelString ''Time in seconds (lower is faster)''],
      datasets =
        [bar ''Payload v3+SQLite'' [number_value (65609 / 100)] (Some ''rgb(0, 101, 101)''),
         bar ''SupaBase'' [Fin 151] (Some ''rgb(62, 207, 142)''),
         bar ''PocketBase TS'' [number_value (67721 / 1000)] (Some ''rgb(230, 128, 30)''),
         bar ''PocketBase Dart (JIT)'' [number_value (61687 / 1000)] (Some ''rgb(238, 175, 72)''),
         bar ''TrailBase TS'' [number_value (16742 / 1000)] (Some ''rgb(0, 115, 170)''),
         bar ''TrailBase Dart'' [number_value (94247 / 10000)] (Some ''rgb(71, 161, 205)''),
         bar ''In-process SQLite (Drizzle)'' [number_value (8803 / 1000)]
           (Some ''rgb(249, 39, 100)'')]\<rparr>"
    by (simp add: Duration100kInsertsChartMoreResults_def literals)
  have d3: "chart_data (fst (PocketBaseAndTrailBaseReadLatencies ?M)) =
     \<lparr>labels = Some [LabelString ''p50'', LabelString ''p75'', LabelString ''p90'', LabelString ''p95''],
      datasets =
        [bar ''PocketBase''
           (map (\<lambda>p. number_div (Fin p) (Fin 1000)) [12740, 13718, 14755, 15495])
           (Some ''rgb(230, 128, 30)''),
         bar ''TrailBase''
           (map (\<lambda>p. number_div (Fin p) (Fin 1000)) [3504, 3947, 4393, 4725])
           (Some ''rgb(0, 115, 170)'')]\<rparr>"
    by (simp add: PocketBaseAndTrailBaseReadLatencies_def latenciesMs_def percentile_labels_def
        literals)
  have d4: "chart_data (fst (PocketBaseAndTrailBaseInsertLatencies ?M)) =
     \<lparr>labels = Some [LabelString ''p50'', LabelString ''p75'', LabelString ''p90'', LabelString ''p95''],
      datasets =
        [bar ''PocketBase''
           (map (\<lambda>p. number_div (Fin p) (Fin 1000)) [28160, 58570, 108325, 157601])
           (Some ''rgb(230, 128, 30)''),
         bar ''TrailBase''
           (map (\<lambda>p. number_div (Fin p) (Fin 1000)) [8107, 10897, 15327, 19627])
           (Some ''rgb(0, 115, 170)'')]\<rparr>"
    by (simp add: PocketBaseAndTrailBaseInsertLatencies_def latenciesMs_def percentile_labels_def
        literals)
  have d5: "chart_data (fst (SupaBaseMemoryUsageChart str to_num ?M)) =
     \<lparr>labels = Some (map (\<lambda>i. LabelNumber (Fin (of_nat i))) [0..<330]),
      datasets =
        map (\<lambda>(key, samples).
               area (replace ''supabase-'' '''' key)
                 (map (\<lambda>(datum, index).
                         \<lparr>point_x = Fin (of_nat index), point_y = memUsageKb datum\<rparr>)
                    (indexed samples)))
          su\<rparr>"
    by (simp add: SupaBaseMemoryUsageChart_def sample_labels_def module_loaded_def)
  have d6: "chart_data (fst (SupaBaseCpuUsageChart str ?M)) =
     \<lparr>labels = Some (map (\<lambda>i. LabelNumber (Fin (of_nat i))) [0..<330]),
      datasets =
        map (\<lambda>(key, samples).
               area (replace ''supabase-'' '''' key)
                 (map (\<lambda>(datum, index).
                         \<lparr>point_x = Fin (of_nat index),
                          point_y = (case cpuPercent datum of None \<Rightarrow> Fin 0 | Some c \<Rightarrow> c)\<rparr>)
                    (indexed samples)))
          su\<rparr>"
    by (simp add: SupaBaseCpuUsageChart_def sample_labels_def module_loaded_def)
  have d7: "chart_data (fst (PocketBaseAndTrailBaseUsageChart str to_num ?M)) =
     \<lparr>labels = None,
      datasets =
        [trace ''yLeft'' ''TrailBase CPU'' cpu itb ''rgb(0, 115, 170)'',
         trace ''yRight'' ''TrailBase RSS'' rss itb ''rgb(71, 161, 205)'',
         trace ''yLeft'' ''PocketBase CPU'' cpu ipb ''rgb(230, 128, 30)'',
         trace ''yRight'' ''PocketBase RSS'' rss ipb ''rgb(238, 175, 72)'']\<rparr>"
    by (simp add: PocketBaseAndTrailBaseUsageChart_def Let_def literals)
  have d8: "chart_data (fst (FibonacciPocketBaseAndTrailBaseUsageChart str to_num ?M)) =
     \<lparr>labels = None,
      datasets =
        [trace ''yLeft'' ''TrailBase CPU'' cpu ftb ''rgb(0, 115, 170)'',
         trace ''yRight'' ''TrailBase RSS'' rss ftb ''rgb(71, 161, 205)'',
         trace ''yLeft'' ''PocketBase CPU'' cpu fpb ''rgb(230, 128, 30)'',
         trace ''yRight'' ''PocketBase RSS'' rss fpb ''rgb(238, 175, 72)'']\<rparr>"
    by (simp add: FibonacciPocketBaseAndTrailBaseUsageChart_def Let_def literals)
  show ?thesis
    by (intro conjI pure again d1 d2 d3 d4 d5 d6 d7 d8)
qed

lemma indexed_nth: "i < length xs \<Longrightarrow> indexed xs ! i = (xs ! i, i)"
  by (simp add: indexed_def)

lemma length_indexed: "length (indexed xs) = length xs"
  by (simp add: indexed_def)

lemma SupaBaseCpuUsageChart_datasets:
  "datasets (chart_data (fst (SupaBaseCpuUsageChart str m))) =
     map (\<lambda>(key, samples).
            area (replace ''supabase-'' '''' key)
              (map (\<lambda>(datum, index).
                      \<lparr>point_x = Fin (of_nat index),
                       point_y = (case cpuPercent datum of None \<Rightarrow> Fin 0 | Some c \<Rightarrow> c)\<rparr>)
                 (indexed samples)))
       (supabaseUtilization m)"
  by (simp add: SupaBaseCpuUsageChart_def)

text \<open>
  C10.  The CPU usage chart has one dataset per series of the SupaBase fixture and one
  point per sample of the series.  The point of the sample at position \<open>i\<close> has
  \<open>x = i\<close>; its \<open>y\<close> is 0 when the sample has no \<open>cpuPercent\<close>, and the sample's
  \<open>cpuPercent\<close> when it has one.
\<close>

theorem SupaBaseCpuUsageChart_points:
  assumes "j < length (supabaseUtilization m)"
    and "i < length (snd (supabaseUtilization m ! j))"
  shows "length (datasets (chart_data (fst (SupaBaseCpuUsageChart str m))))
           = length (supabaseUtilization m)
    \<and> length (points (ds_data (datasets (chart_data (fst (SupaBaseCpuUsageChart str m))) ! j)))
           = length (snd (supabaseUtilization m ! j))
    \<and> point_x (points (ds_data (datasets (chart_data (fst (SupaBaseCpuUsageChart str m))) ! j)) ! i)
           = Fin (of_nat i)
    \<and> point_y (points (ds_data (datasets (chart_data (fst (SupaBaseCpuUsageChart str m))) ! j)) ! i)
           = (case cpuPercent (snd (supabaseUtilization m ! j) ! i) of
                None \<Rightarrow> Fin 0 | Some c \<Rightarrow> c)"
proof -
  obtain key samples where entry: "supabaseUtilization m ! j = (key, samples)"
    by (cases "supabaseUtilization m ! j")
  have pts: "points (ds_data (datasets (chart_data (fst (SupaBaseCpuUsageChart str m))) ! j)) =
      map (\<lambda>(datum, index).
             \<lparr>point_x = Fin (of_nat index),
              point_y = (case cpuPercent datum of None \<Rightarrow> Fin 0 | Some c \<Rightarrow> c)\<rparr>)
        (indexed samples)"
    using assms(1) entry by (simp add: SupaBaseCpuUsageChart_datasets area_def)
  from assms(2) entry have "i < length samples" by simp
  then show ?thesis
    using entry
    by (simp add: pts length_indexed indexed_nth) (simp add: SupaBaseCpuUsageChart_datasets)
qed

theorem SupaBaseCpuUsageChart_points_witness:
  "0 < length (supabaseUtilization (module_loaded
        [(''supabase-db'', [\<lparr>memUsageKb = Fin 10, cpuPercent = None\<rparr>,
                           \<lparr>memUsageKb = Fin 11, cpuPercent = Some (Fin (3 / 2))\<rparr>])] [] [] [] []))
   \<and> 1 < length (snd (supabaseUtilization (module_loaded
        [(''supabase-db'', [\<lparr>memUsageKb = Fin 10, cpuPercent = None\<rparr>,
                           \<lparr>memUsageKb = Fin 11, cpuPercent = Some (Fin (3 / 2))\<rparr>])] [] [] [] []) ! 0))
   \<and> point_y (points (ds_data (datasets (chart_data (fst
        (SupaBaseCpuUsageChart (number_to_string (\<lambda>q. ''''))
          (module_loaded
            [(''supabase-db'', [\<lparr>memUsageKb = Fin 10, cpuPercent = None\<rparr>,
                               \<lparr>memUsageKb = Fin 11, cpuPercent = Some (Fin (3 / 2))\<rparr>])]
            [] [] [] [])))) ! 0)) ! 1)
       = Fin (3 / 2)"
  using SupaBaseCpuUsageChart_points [where j = 0 and i = 1
      and str = "number_to_string (\<lambda>q. '''')"
      and m = "module_loaded
        [(''supabase-db'', [\<lparr>memUsageKb = Fin 10, cpuPercent = None\<rparr>,
                           \<lparr>memUsageKb = Fin 11, cpuPercent = Some (Fin (3 / 2))\<rparr>])] [] [] [] []"]
  by (simp add: module_loaded_def)

end
